theory Spec2Isabelle
  imports Complex_Main
begin

section \<open>Spaced-repetition scheduling engine\<close>

text \<open>
  A shallow embedding of the interval calculator
  (\<^verbatim>\<open>utils/intervalCalculator.ts\<close>, class \<^verbatim>\<open>IntervalCalculator\<close>),
  of its configuration (\<^verbatim>\<open>types/spacedRepetition.ts\<close>) and of the service that
  persists its results (\<^verbatim>\<open>services/spacedRepetition.ts\<close>).

  Numbers. TypeScript has one type \<^verbatim>\<open>number\<close>. The quantities that the store keeps in
  \<^verbatim>\<open>INTEGER\<close> columns (interval, learning step, the counters) and the lateness in whole
  days, which the callers compute with \<^verbatim>\<open>Math.floor\<close>, are \<open>int\<close>; ease factors and
  multipliers are exact rationals. Rounding of IEEE doubles is not modelled.

  Time. A \<^verbatim>\<open>Date\<close> is its time value in milliseconds. Every \<^verbatim>\<open>new Date()\<close> of the
  source is a reading of the system clock and appears here as an argument.

  Undefined. Reading a JavaScript array outside its bounds gives \<^verbatim>\<open>undefined\<close>; a number
  that may be \<^verbatim>\<open>undefined\<close> is an \<open>int option\<close>, and a \<^verbatim>\<open>Date\<close> built from it
  is the invalid date, also \<open>None\<close>.
\<close>

subsection \<open>Types (types/spacedRepetition.ts)\<close>

datatype Rating = Again | Hard | Good | Easy

datatype CardState = NEW | LEARNING | REVIEW | RELEARNING

record ReviewResult =
  newInterval :: "int option"
  newDueDate :: "int option"
  newEaseFactor :: rat
  newCardState :: CardState
  newLearningStep :: int
  lapseCountIncrement :: int

record NextReviewOptions =
  again :: "int option"
  hard :: "int option"
  good :: "int option"
  easy :: "int option"

record SpacedRepetitionConfig =
  learningSteps :: "int list"
  graduatingInterval :: int
  easyInterval :: int
  minEaseFactor :: rat
  maxEaseFactor :: rat
  initialEaseFactor :: rat
  lapseMultiplier :: rat
  hardMultiplier :: rat
  easyBonus :: rat

definition DEFAULT_CONFIG :: SpacedRepetitionConfig where
  "DEFAULT_CONFIG =
     \<lparr> learningSteps = [1, 10],
       graduatingInterval = 1,
       easyInterval = 4,
       minEaseFactor = 13 / 10,
       maxEaseFactor = 25 / 10,
       initialEaseFactor = 25 / 10,
       lapseMultiplier = 1 / 10,
       hardMultiplier = 12 / 10,
       easyBonus = 13 / 10 \<rparr>"

subsection \<open>JavaScript primitives used by the calculator\<close>

text \<open>\<^verbatim>\<open>xs[i]\<close>: the element, or \<^verbatim>\<open>undefined\<close> outside the array.\<close>

definition js_index :: "int list \<Rightarrow> int \<Rightarrow> int option" where
  "js_index xs i = (if 0 \<le> i \<and> i < int (length xs) then Some (xs ! nat i) else None)"

text \<open>\<^verbatim>\<open>a || b\<close> on numbers: \<^verbatim>\<open>undefined\<close> and \<^verbatim>\<open>0\<close> are falsy.\<close>

definition js_or :: "int option \<Rightarrow> int option \<Rightarrow> int option" where
  "js_or a b = (case a of None \<Rightarrow> b | Some v \<Rightarrow> if v = 0 then b else Some v)"

text \<open>\<^verbatim>\<open>new Date(date.getTime() + minutes * 60 * 1000)\<close>\<close>

definition addMinutes :: "int \<Rightarrow> int option \<Rightarrow> int option" where
  "addMinutes date minutes =
     (case minutes of None \<Rightarrow> None | Some m \<Rightarrow> Some (date + m * 60 * 1000))"

text \<open>\<^verbatim>\<open>new Date(date.getTime() + days * 24 * 60 * 60 * 1000)\<close>\<close>

definition addDays :: "int \<Rightarrow> int option \<Rightarrow> int option" where
  "addDays date days =
     (case days of None \<Rightarrow> None | Some d \<Rightarrow> Some (date + d * 24 * 60 * 60 * 1000))"

subsection \<open>IntervalCalculator\<close>

text \<open>\<^verbatim>\<open>handleNewCard(rating)\<close>; \<open>now\<close> is its \<^verbatim>\<open>new Date()\<close>.\<close>

definition handleNewCard :: "SpacedRepetitionConfig \<Rightarrow> int \<Rightarrow> Rating \<Rightarrow> ReviewResult" where
  "handleNewCard c now rating =
     (case rating of
        Again \<Rightarrow>
          \<lparr> newInterval = js_index (learningSteps c) 0,
            newDueDate = addMinutes now (js_index (learningSteps c) 0),
            newEaseFactor = initialEaseFactor c,
            newCardState = LEARNING,
            newLearningStep = 0,
            lapseCountIncrement = 0 \<rparr>
      | Hard \<Rightarrow>
          \<lparr> newInterval = js_index (learningSteps c) 0,
            newDueDate = addMinutes now (js_index (learningSteps c) 0),
            newEaseFactor = initialEaseFactor c,
            newCardState = LEARNING,
            newLearningStep = 0,
            lapseCountIncrement = 0 \<rparr>
      | Good \<Rightarrow>
          (let nextStep = js_or (js_index (learningSteps c) 1) (js_index (learningSteps c) 0)
           in \<lparr> newInterval = nextStep,
                newDueDate = addMinutes now nextStep,
                newEaseFactor = initialEaseFactor c,
                newCardState = LEARNING,
                newLearningStep = 1,
                lapseCountIncrement = 0 \<rparr>)
      | Easy \<Rightarrow>
          \<lparr> newInterval = Some (easyInterval c),
            newDueDate = addDays now (Some (easyInterval c)),
            newEaseFactor = initialEaseFactor c,
            newCardState = REVIEW,
            newLearningStep = 0,
            lapseCountIncrement = 0 \<rparr>)"

text \<open>\<^verbatim>\<open>handleLearningCard(rating, currentStep)\<close>: the handler does not receive the
  current ease factor.\<close>

definition handleLearningCard ::
  "SpacedRepetitionConfig \<Rightarrow> int \<Rightarrow> Rating \<Rightarrow> int \<Rightarrow> ReviewResult" where
  "handleLearningCard c now rating currentStep =
     (case rating of
        Again \<Rightarrow>
          \<lparr> newInterval = js_index (learningSteps c) 0,
            newDueDate = addMinutes now (js_index (learningSteps c) 0),
            newEaseFactor = initialEaseFactor c,
            newCardState = LEARNING,
            newLearningStep = 0,
            lapseCountIncrement = 0 \<rparr>
      | Hard \<Rightarrow>
          (let currentStepInterval =
                 js_or (js_index (learningSteps c) currentStep) (js_index (learningSteps c) 0)
           in \<lparr> newInterval = currentStepInterval,
                newDueDate = addMinutes now currentStepInterval,
                newEaseFactor = initialEaseFactor c,
                newCardState = LEARNING,
                newLearningStep = currentStep,
                lapseCountIncrement = 0 \<rparr>)
      | Good \<Rightarrow>
          (let nextStep = currentStep + 1
           in if nextStep \<ge> int (length (learningSteps c)) then
                \<lparr> newInterval = Some (graduatingInterval c),
                  newDueDate = addDays now (Some (graduatingInterval c)),
                  newEaseFactor = initialEaseFactor c,
                  newCardState = REVIEW,
                  newLearningStep = 0,
                  lapseCountIncrement = 0 \<rparr>
              else
                (let nextStepInterval = js_index (learningSteps c) nextStep
                 in \<lparr> newInterval = nextStepInterval,
                      newDueDate = addMinutes now nextStepInterval,
                      newEaseFactor = initialEaseFactor c,
                      newCardState = LEARNING,
                      newLearningStep = nextStep,
                      lapseCountIncrement = 0 \<rparr>))
      | Easy \<Rightarrow>
          \<lparr> newInterval = Some (easyInterval c),
            newDueDate = addDays now (Some (easyInterval c)),
            newEaseFactor = initialEaseFactor c,
            newCardState = REVIEW,
            newLearningStep = 0,
            lapseCountIncrement = 0 \<rparr>)"

text \<open>\<^verbatim>\<open>handleReviewCard(rating, currentInterval, currentEaseFactor, daysLate)\<close>.
  In the \<^verbatim>\<open>again\<close> branch the source assigns the decayed interval to the local
  \<^verbatim>\<open>newInterval\<close> and then returns the first learning step; the binding is kept.\<close>

definition handleReviewCard ::
  "SpacedRepetitionConfig \<Rightarrow> int \<Rightarrow> Rating \<Rightarrow> int \<Rightarrow> rat \<Rightarrow> int \<Rightarrow> ReviewResult" where
  "handleReviewCard c now rating currentInterval currentEaseFactor daysLate =
     (let adjustedInterval =
            max 1 (currentInterval + \<lfloor>of_int daysLate * (25 / 100 :: rat)\<rfloor>)
      in case rating of
        Again \<Rightarrow>
          (let newEaseFactor' = max (minEaseFactor c) (currentEaseFactor - 2 / 10);
               newInterval' = max 1 \<lfloor>of_int adjustedInterval * lapseMultiplier c\<rfloor>
           in \<lparr> newInterval = js_index (learningSteps c) 0,
                newDueDate = addMinutes now (js_index (learningSteps c) 0),
                newEaseFactor = newEaseFactor',
                newCardState = RELEARNING,
                newLearningStep = 0,
                lapseCountIncrement = 1 \<rparr>)
      | Hard \<Rightarrow>
          (let newEaseFactor' = max (minEaseFactor c) (currentEaseFactor - 15 / 100);
               newInterval' = max 1 \<lfloor>of_int adjustedInterval * hardMultiplier c\<rfloor>
           in \<lparr> newInterval = Some newInterval',
                newDueDate = addDays now (Some newInterval'),
                newEaseFactor = newEaseFactor',
                newCardState = REVIEW,
                newLearningStep = 0,
                lapseCountIncrement = 0 \<rparr>)
      | Good \<Rightarrow>
          (let newEaseFactor' = currentEaseFactor;
               newInterval' = max 1 \<lfloor>of_int adjustedInterval * newEaseFactor'\<rfloor>
           in \<lparr> newInterval = Some newInterval',
                newDueDate = addDays now (Some newInterval'),
                newEaseFactor = newEaseFactor',
                newCardState = REVIEW,
                newLearningStep = 0,
                lapseCountIncrement = 0 \<rparr>)
      | Easy \<Rightarrow>
          (let newEaseFactor' = min (maxEaseFactor c) (currentEaseFactor + 15 / 100);
               newInterval' = max 1 \<lfloor>of_int adjustedInterval * newEaseFactor' * easyBonus c\<rfloor>
           in \<lparr> newInterval = Some newInterval',
                newDueDate = addDays now (Some newInterval'),
                newEaseFactor = newEaseFactor',
                newCardState = REVIEW,
                newLearningStep = 0,
                lapseCountIncrement = 0 \<rparr>))"

text \<open>\<^verbatim>\<open>handleRelearningCard(rating, currentInterval, currentEaseFactor, currentStep)\<close>\<close>

definition handleRelearningCard ::
  "SpacedRepetitionConfig \<Rightarrow> int \<Rightarrow> Rating \<Rightarrow> int \<Rightarrow> rat \<Rightarrow> int \<Rightarrow> ReviewResult" where
  "handleRelearningCard c now rating currentInterval currentEaseFactor currentStep =
     (case rating of
        Again \<Rightarrow>
          \<lparr> newInterval = js_index (learningSteps c) 0,
            newDueDate = addMinutes now (js_index (learningSteps c) 0),
            newEaseFactor = currentEaseFactor,
            newCardState = RELEARNING,
            newLearningStep = 0,
            lapseCountIncrement = 0 \<rparr>
      | Hard \<Rightarrow>
          (let currentStepInterval =
                 js_or (js_index (learningSteps c) currentStep) (js_index (learningSteps c) 0)
           in \<lparr> newInterval = currentStepInterval,
                newDueDate = addMinutes now currentStepInterval,
                newEaseFactor = currentEaseFactor,
                newCardState = RELEARNING,
                newLearningStep = currentStep,
                lapseCountIncrement = 0 \<rparr>)
      | Good \<Rightarrow>
          (let nextStep = currentStep + 1
           in if nextStep \<ge> int (length (learningSteps c)) then
                (let newInterval' = max 1 \<lfloor>of_int currentInterval * lapseMultiplier c\<rfloor>
                 in \<lparr> newInterval = Some newInterval',
                      newDueDate = addDays now (Some newInterval'),
                      newEaseFactor = currentEaseFactor,
                      newCardState = REVIEW,
                      newLearningStep = 0,
                      lapseCountIncrement = 0 \<rparr>)
              else
                (let nextStepInterval = js_index (learningSteps c) nextStep
                 in \<lparr> newInterval = nextStepInterval,
                      newDueDate = addMinutes now nextStepInterval,
                      newEaseFactor = currentEaseFactor,
                      newCardState = RELEARNING,
                      newLearningStep = nextStep,
                      lapseCountIncrement = 0 \<rparr>))
      | Easy \<Rightarrow>
          (let newInterval' = max 1 \<lfloor>of_int currentInterval * lapseMultiplier c\<rfloor>
           in \<lparr> newInterval = Some newInterval',
                newDueDate = addDays now (Some newInterval'),
                newEaseFactor = currentEaseFactor,
                newCardState = REVIEW,
                newLearningStep = 0,
                lapseCountIncrement = 0 \<rparr>))"

text \<open>\<^verbatim>\<open>calculateReview\<close>: the dispatch on the current state. \<^verbatim>\<open>CardState\<close> has four
  values, in the TypeScript type and in the store's enum, so the \<^verbatim>\<open>default\<close> branch
  that throws is not reached. \<open>now\<close> is the clock reading of the handler that runs.\<close>

definition calculateReview ::
  "SpacedRepetitionConfig \<Rightarrow> int \<Rightarrow> CardState \<Rightarrow> int \<Rightarrow> rat \<Rightarrow> int \<Rightarrow> Rating \<Rightarrow> int
     \<Rightarrow> ReviewResult" where
  "calculateReview c now currentState currentInterval currentEaseFactor currentLearningStep
       rating daysLate =
     (case currentState of
        NEW \<Rightarrow> handleNewCard c now rating
      | LEARNING \<Rightarrow> handleLearningCard c now rating currentLearningStep
      | REVIEW \<Rightarrow> handleReviewCard c now rating currentInterval currentEaseFactor daysLate
      | RELEARNING \<Rightarrow>
          handleRelearningCard c now rating currentInterval currentEaseFactor
            currentLearningStep)"

definition isMinuteInterval :: "int option \<Rightarrow> CardState \<Rightarrow> bool" where
  "isMinuteInterval interval cardState = (cardState = LEARNING \<or> cardState = RELEARNING)"

definition daysToDays :: "int option \<Rightarrow> int option" where
  "daysToDays days = days"

text \<open>\<^verbatim>\<open>getNextReviewOptions\<close> calls \<^verbatim>\<open>calculateReview\<close> four times; each call reads
  the clock, so \<open>clock k\<close> is the reading of the \<open>k\<close>-th call.\<close>

definition getNextReviewOptions ::
  "SpacedRepetitionConfig \<Rightarrow> (nat \<Rightarrow> int) \<Rightarrow> CardState \<Rightarrow> int \<Rightarrow> rat \<Rightarrow> int \<Rightarrow> int
     \<Rightarrow> NextReviewOptions" where
  "getNextReviewOptions c clock currentState currentInterval currentEaseFactor
       currentLearningStep daysLate =
     (let again' = calculateReview c (clock 0) currentState currentInterval currentEaseFactor
                     currentLearningStep Again daysLate;
          hard' = calculateReview c (clock 1) currentState currentInterval currentEaseFactor
                     currentLearningStep Hard daysLate;
          good' = calculateReview c (clock 2) currentState currentInterval currentEaseFactor
                     currentLearningStep Good daysLate;
          easy' = calculateReview c (clock 3) currentState currentInterval currentEaseFactor
                     currentLearningStep Easy daysLate
      in \<lparr> again = (if isMinuteInterval (newInterval again') (newCardState again')
                    then newInterval again' else daysToDays (newInterval again')),
           hard = (if isMinuteInterval (newInterval hard') (newCardState hard')
                   then newInterval hard' else daysToDays (newInterval hard')),
           good = (if isMinuteInterval (newInterval good') (newCardState good')
                   then newInterval good' else daysToDays (newInterval good')),
           easy = (if isMinuteInterval (newInterval easy') (newCardState easy')
                   then newInterval easy' else daysToDays (newInterval easy')) \<rparr>)"

text \<open>\<^verbatim>\<open>calculatePriority(dueDate, easeFactor, lapseCount, cardState)\<close>; \<open>None\<close> is the
  \<^verbatim>\<open>null\<close> due date and \<open>now\<close> the clock reading.\<close>

definition calculatePriority ::
  "SpacedRepetitionConfig \<Rightarrow> int \<Rightarrow> int option \<Rightarrow> rat \<Rightarrow> int \<Rightarrow> CardState \<Rightarrow> rat" where
  "calculatePriority c now dueDate easeFactor lapseCount cardState =
     (case dueDate of
        None \<Rightarrow> 0
      | Some due \<Rightarrow>
          (let daysOverdue =
                 max 0 \<lfloor>(of_int (now - due) :: rat) / of_int (1000 * 60 * 60 * 24)\<rfloor>;
               priority0 = of_int daysOverdue * 10;
               priority1 = priority0 + (maxEaseFactor c - easeFactor) * 5;
               priority2 = priority1 + of_int lapseCount * 2
           in if cardState = LEARNING \<or> cardState = RELEARNING
              then priority2 + 100 else priority2))"

section \<open>The service (services/spacedRepetition.ts)\<close>

subsection \<open>The store\<close>

text \<open>A row of table \<^verbatim>\<open>UserTheoryProgress\<close>, with the columns of the two migrations;
  \<open>rowId\<close> is the column \<^verbatim>\<open>id\<close>. Timestamps are milliseconds, \<open>None\<close> is
  \<^verbatim>\<open>NULL\<close>.\<close>

record UserTheoryProgress =
  rowId :: string
  userId :: int
  cardId :: string
  solvedCount :: int
  createdAt :: int
  updatedAt :: int
  cardState :: CardState
  dueDate :: "int option"
  easeFactor :: rat
  interval :: int
  lapseCount :: int
  lastReviewDate :: "int option"
  learningStep :: int
  reviewCount :: int

text \<open>A row of table \<^verbatim>\<open>TheoryCard\<close>: its key (column \<^verbatim>\<open>id\<close>) and the remaining
  columns, which the service copies and never inspects.\<close>

record 'c TheoryCard =
  cardKey :: string
  columns :: 'c

text \<open>The database: the keys of table \<^verbatim>\<open>User\<close>, the cards in the order in which
  \<^verbatim>\<open>findMany\<close> returns them, and the progress rows under their unique index
  \<^verbatim>\<open>(userId, cardId)\<close>.\<close>

record 'c Database =
  users :: "int list"
  theoryCards :: "'c TheoryCard list"
  progressRows :: "int \<times> string \<rightharpoonup> UserTheoryProgress"

text \<open>What the store itself supplies for a created row: the key and the values of
  \<^verbatim>\<open>createdAt\<close> and \<^verbatim>\<open>updatedAt\<close>. The Prisma schema that declares the defaults
  is not among the sources, so all three are parameters.\<close>

record Generated =
  genId :: string
  genCreatedAt :: int
  genUpdatedAt :: int

datatype error = ForeignKeyViolation | InvalidDate

text \<open>\<^verbatim>\<open>prisma.userTheoryProgress.create\<close> with the initial values that
  \<^verbatim>\<open>reviewCard\<close> and \<^verbatim>\<open>resetCard\<close> both pass. The two foreign keys of the table
  reject a user or a card that does not exist.\<close>

definition initialProgress :: "Generated \<Rightarrow> int \<Rightarrow> string \<Rightarrow> UserTheoryProgress" where
  "initialProgress gen uid cid =
     \<lparr> rowId = genId gen,
       userId = uid,
       cardId = cid,
       solvedCount = 0,
       createdAt = genCreatedAt gen,
       updatedAt = genUpdatedAt gen,
       cardState = NEW,
       dueDate = None,
       easeFactor = 25 / 10,
       interval = 1,
       lapseCount = 0,
       lastReviewDate = None,
       learningStep = 0,
       reviewCount = 0 \<rparr>"

definition createProgress ::
  "'c Database \<Rightarrow> Generated \<Rightarrow> int \<Rightarrow> string \<Rightarrow> error + UserTheoryProgress \<times> 'c Database" where
  "createProgress db gen uid cid =
     (if uid \<in> set (users db) \<and> cid \<in> set (map cardKey (theoryCards db)) then
        Inr (initialProgress gen uid cid,
             db\<lparr>progressRows := (progressRows db)((uid, cid) \<mapsto> initialProgress gen uid cid)\<rparr>)
      else Inl ForeignKeyViolation)"

subsection \<open>reviewCard\<close>

record ReviewResponse =
  resp_userId :: int
  resp_cardId :: string
  resp_newInterval :: "int option"
  resp_newDueDate :: int
  resp_easeFactor :: rat
  resp_cardState :: CardState
  resp_reviewCount :: int
  resp_lapseCount :: int
  nextReviewIntervals :: NextReviewOptions

text \<open>\<^verbatim>\<open>Math.max(0, Math.floor((now - dueDate) / (1000*60*60*24)))\<close>, or 0 for a
  \<^verbatim>\<open>null\<close> due date.\<close>

definition daysLateOf :: "int \<Rightarrow> int option \<Rightarrow> int" where
  "daysLateOf now due =
     (case due of
        None \<Rightarrow> 0
      | Some d \<Rightarrow> max 0 \<lfloor>(of_int (now - d) :: rat) / of_int (1000 * 60 * 60 * 24)\<rfloor>)"

text \<open>\<^verbatim>\<open>reviewCard(userId, cardId, rating)\<close>. The result is the response or the error
  thrown, together with the database as the call leaves it: the calls to the store are
  not in a transaction. \<open>clock 0\<close> is the service's own \<^verbatim>\<open>new Date()\<close>, \<open>clock 1\<close>
  the calculator's, the following four those of the preview. Prisma leaves a column
  alone whose new value is \<^verbatim>\<open>undefined\<close> and rejects an invalid date. The calculator
  returns an \<^verbatim>\<open>undefined\<close> interval only together with an invalid date (lemma
  \<open>due_date_gives_interval\<close> below), so past the date check the interval is a number.\<close>

definition reviewCard ::
  "'c Database \<Rightarrow> Generated \<Rightarrow> (nat \<Rightarrow> int) \<Rightarrow> int \<Rightarrow> string \<Rightarrow> Rating
     \<Rightarrow> (error + ReviewResponse) \<times> 'c Database" where
  "reviewCard db gen clock uid cid rating =
     (case (case progressRows db (uid, cid) of
              Some found \<Rightarrow> Inr (found, db)
            | None \<Rightarrow> createProgress db gen uid cid) of
        Inl e \<Rightarrow> (Inl e, db)
      | Inr (progress, db1) \<Rightarrow>
          (let now = clock 0;
               daysLate = daysLateOf now (dueDate progress);
               reviewResult =
                 calculateReview DEFAULT_CONFIG (clock 1) (cardState progress)
                   (interval progress) (easeFactor progress) (learningStep progress)
                   rating daysLate
           in case newDueDate reviewResult of
                None \<Rightarrow> (Inl InvalidDate, db1)
              | Some due \<Rightarrow>
                  (let updatedProgress =
                         progress
                           \<lparr> easeFactor := newEaseFactor reviewResult,
                             interval := (case newInterval reviewResult of
                                            None \<Rightarrow> interval progress | Some i \<Rightarrow> i),
                             dueDate := Some due,
                             reviewCount := reviewCount progress + 1,
                             lapseCount :=
                               lapseCount progress + lapseCountIncrement reviewResult,
                             cardState := newCardState reviewResult,
                             learningStep := newLearningStep reviewResult,
                             lastReviewDate := Some now,
                             solvedCount := solvedCount progress + 1,
                             updatedAt := now \<rparr>;
                       db2 = db1\<lparr>progressRows :=
                                   (progressRows db1)((uid, cid) \<mapsto> updatedProgress)\<rparr>;
                       options =
                         getNextReviewOptions DEFAULT_CONFIG (\<lambda>k. clock (k + 2))
                           (newCardState reviewResult)
                           (case newInterval reviewResult of
                              None \<Rightarrow> interval progress | Some i \<Rightarrow> i)
                           (newEaseFactor reviewResult) (newLearningStep reviewResult) 0
                   in (Inr \<lparr> resp_userId = uid,
                             resp_cardId = cid,
                             resp_newInterval = newInterval reviewResult,
                             resp_newDueDate = due,
                             resp_easeFactor = newEaseFactor reviewResult,
                             resp_cardState = newCardState reviewResult,
                             resp_reviewCount = reviewCount updatedProgress,
                             resp_lapseCount = lapseCount updatedProgress,
                             nextReviewIntervals = options \<rparr>,
                       db2))))"

subsection \<open>resetCard\<close>

text \<open>\<^verbatim>\<open>resetCard(userId, cardId)\<close>: an upsert. \<open>now\<close> is the \<^verbatim>\<open>new Date()\<close> of the
  update branch.\<close>

definition resetCard ::
  "'c Database \<Rightarrow> Generated \<Rightarrow> int \<Rightarrow> int \<Rightarrow> string \<Rightarrow> error + 'c Database" where
  "resetCard db gen now uid cid =
     (case progressRows db (uid, cid) of
        None \<Rightarrow>
          (case createProgress db gen uid cid of
             Inl e \<Rightarrow> Inl e
           | Inr (created, db1) \<Rightarrow> Inr db1)
      | Some progress \<Rightarrow>
          Inr (db\<lparr>progressRows := (progressRows db)((uid, cid) \<mapsto>
                 progress
                   \<lparr> solvedCount := 0,
                     easeFactor := 25 / 10,
                     interval := 1,
                     dueDate := None,
                     reviewCount := 0,
                     lapseCount := 0,
                     cardState := NEW,
                     learningStep := 0,
                     lastReviewDate := None,
                     updatedAt := now \<rparr>)\<rparr>))"

subsection \<open>getDueCards\<close>

text \<open>An entry of the queue: the card (the spread \<^verbatim>\<open>...card\<close>) and the fields computed
  from its progress.\<close>

record 'c DueCard =
  dc_card :: "'c TheoryCard"
  dc_dueDate :: "int option"
  dc_cardState :: CardState
  dc_interval :: int
  dc_easeFactor :: rat
  dc_reviewCount :: int
  dc_lapseCount :: int
  isOverdue :: bool
  daysSinceLastReview :: "int option"
  priority :: rat

text \<open>\<^verbatim>\<open>card.progressEntries\<close> for \<^verbatim>\<open>where: { userId }\<close>: the unique index leaves
  at most one row.\<close>

definition progressEntries :: "'c Database \<Rightarrow> int \<Rightarrow> 'c TheoryCard \<Rightarrow> UserTheoryProgress list" where
  "progressEntries db uid theoryCard =
     (case progressRows db (uid, cardKey theoryCard) of None \<Rightarrow> [] | Some p \<Rightarrow> [p])"

definition stateFilter :: "bool \<Rightarrow> bool \<Rightarrow> bool \<Rightarrow> CardState list" where
  "stateFilter includeNew includeLearning includeReview =
     (if includeNew then [NEW] else [])
     @ (if includeLearning then [LEARNING, RELEARNING] else [])
     @ (if includeReview then [REVIEW] else [])"

text \<open>The body of the loop over \<^verbatim>\<open>cardsData\<close>: \<open>None\<close> for \<^verbatim>\<open>continue\<close>, otherwise
  the entry pushed. \<open>now\<close> is the reading at the start of \<^verbatim>\<open>getDueCards\<close>,
  \<open>tPriority\<close> the one that \<^verbatim>\<open>calculatePriority\<close> takes for this card.\<close>

definition processCard ::
  "int \<Rightarrow> int \<Rightarrow> bool \<Rightarrow> bool \<Rightarrow> bool \<Rightarrow> 'c TheoryCard \<Rightarrow> UserTheoryProgress list
     \<Rightarrow> 'c DueCard option" where
  "processCard now tPriority includeNew includeLearning includeReview theoryCard entries =
     (case entries of
        [] \<Rightarrow>
          (if includeNew then
             Some \<lparr> dc_card = theoryCard,
                    dc_dueDate = None,
                    dc_cardState = NEW,
                    dc_interval = 1,
                    dc_easeFactor = 25 / 10,
                    dc_reviewCount = 0,
                    dc_lapseCount = 0,
                    isOverdue = False,
                    daysSinceLastReview = None,
                    priority = calculatePriority DEFAULT_CONFIG tPriority None (25 / 10) 0 NEW \<rparr>
           else None)
      | progress # others \<Rightarrow>
          (if cardState progress
                \<notin> set (stateFilter includeNew includeLearning includeReview) then None
           else if (cardState progress = LEARNING \<or> cardState progress = RELEARNING)
                   \<and> (case dueDate progress of None \<Rightarrow> False | Some due \<Rightarrow> now < due)
                then None
           else if cardState progress = REVIEW
                   \<and> (case dueDate progress of
                         None \<Rightarrow> False
                       | Some due \<Rightarrow>
                           \<lfloor>(of_int (now - due) :: rat) / of_int (1000 * 60 * 60 * 24)\<rfloor> < 0)
                then None
           else
             Some \<lparr> dc_card = theoryCard,
                    dc_dueDate = dueDate progress,
                    dc_cardState = cardState progress,
                    dc_interval = interval progress,
                    dc_easeFactor = easeFactor progress,
                    dc_reviewCount = reviewCount progress,
                    dc_lapseCount = lapseCount progress,
                    isOverdue = (case dueDate progress of
                                   None \<Rightarrow> False | Some due \<Rightarrow> now > due),
                    daysSinceLastReview =
                      (case lastReviewDate progress of
                         None \<Rightarrow> None
                       | Some lastReview \<Rightarrow>
                           Some \<lfloor>(of_int (now - lastReview) :: rat)
                                   / of_int (1000 * 60 * 60 * 24)\<rfloor>),
                    priority =
                      calculatePriority DEFAULT_CONFIG tPriority (dueDate progress)
                        (easeFactor progress) (lapseCount progress) (cardState progress) \<rparr>))"

text \<open>The loop: \<open>k\<close> counts the candidates visited, and \<open>clock (Suc k)\<close> is the reading
  that candidate \<open>k\<close> takes.\<close>

fun processCards ::
  "'c Database \<Rightarrow> (nat \<Rightarrow> int) \<Rightarrow> int \<Rightarrow> bool \<Rightarrow> bool \<Rightarrow> bool \<Rightarrow> nat \<Rightarrow> 'c TheoryCard list
     \<Rightarrow> 'c DueCard list" where
  "processCards db clock uid includeNew includeLearning includeReview k [] = []"
| "processCards db clock uid includeNew includeLearning includeReview k (theoryCard # rest) =
     (case processCard (clock 0) (clock (Suc k)) includeNew includeLearning includeReview
             theoryCard (progressEntries db uid theoryCard) of
        None \<Rightarrow> processCards db clock uid includeNew includeLearning includeReview (Suc k) rest
      | Some entry \<Rightarrow>
          entry # processCards db clock uid includeNew includeLearning includeReview (Suc k) rest)"

text \<open>\<^verbatim>\<open>getDueCards(userId, limit, includeNew, includeLearning, includeReview)\<close>:
  \<^verbatim>\<open>take: limit * 2\<close>, the loop, the stable sort by descending priority and
  \<^verbatim>\<open>slice(0, limit)\<close>.\<close>

definition getDueCards ::
  "'c Database \<Rightarrow> (nat \<Rightarrow> int) \<Rightarrow> int \<Rightarrow> nat \<Rightarrow> bool \<Rightarrow> bool \<Rightarrow> bool \<Rightarrow> 'c DueCard list" where
  "getDueCards db clock uid limit includeNew includeLearning includeReview =
     (let cardsData = take (limit * 2) (theoryCards db);
          processedCards =
            processCards db clock uid includeNew includeLearning includeReview 0 cardsData
      in take limit (sort_key (\<lambda>entry. - priority entry) processedCards))"

subsection \<open>Example data\<close>

text \<open>A store with one user and one card, whose progress row is in state \<^verbatim>\<open>REVIEW\<close>
  and was due at time 0.\<close>

definition exampleProgress :: UserTheoryProgress where
  "exampleProgress =
     \<lparr> rowId = ''p1'', userId = 1, cardId = ''c1'', solvedCount = 3, createdAt = 0,
       updatedAt = 0, cardState = REVIEW, dueDate = Some 0, easeFactor = 25 / 10,
       interval = 10, lapseCount = 0, lastReviewDate = None, learningStep = 0,
       reviewCount = 3 \<rparr>"

definition exampleDb :: "unit Database" where
  "exampleDb =
     \<lparr> users = [1],
       theoryCards = [\<lparr>cardKey = ''c1'', columns = ()\<rparr>],
       progressRows = [(1, ''c1'') \<mapsto> exampleProgress] \<rparr>"

definition exampleGen :: Generated where
  "exampleGen = \<lparr>genId = ''p2'', genCreatedAt = 5, genUpdatedAt = 5\<rparr>"

section \<open>Properties of the interval calculator\<close>

lemmas handler_defs = calculateReview_def handleNewCard_def handleLearningCard_def
  handleReviewCard_def handleRelearningCard_def



text \<open>
  Claim C2, as stated: in state \<^verbatim>\<open>LEARNING\<close> the outcome's ease factor equals the
  input ease factor, for every input ease factor. It fails: a \<^verbatim>\<open>LEARNING\<close> card with
  ease factor 2 rated \<^verbatim>\<open>again\<close> comes back with ease factor 2.5.
\<close>

theorem learning_ease_counterexample:
  "newEaseFactor (calculateReview DEFAULT_CONFIG 0 LEARNING 1 2 0 Again 0) \<noteq> 2"
  by (simp add: calculateReview_def handleLearningCard_def DEFAULT_CONFIG_def)

text \<open>
  Claim C2, amended: for every input in state \<^verbatim>\<open>LEARNING\<close> (any interval, ease factor,
  learning step, rating and lateness) the outcome's ease factor is the configuration's
  \<open>initialEaseFactor\<close>; so it equals the input ease factor exactly when that is
  \<open>initialEaseFactor\<close>.
\<close>

theorem learning_ease_is_initial:
  "newEaseFactor
     (calculateReview c now LEARNING currentInterval currentEaseFactor currentLearningStep rating daysLate)
   = initialEaseFactor c"
  by (cases rating) (simp_all add: calculateReview_def handleLearningCard_def Let_def)





text \<open>
  Claim C5. With \<open>minEaseFactor \<le> initialEaseFactor \<le> maxEaseFactor\<close> in the
  configuration and an input ease factor between \<open>minEaseFactor\<close> and
  \<open>maxEaseFactor\<close>, the outcome's ease factor lies between them too, for every state
  and rating.
\<close>

theorem ease_factor_bounds:
  assumes "minEaseFactor c \<le> initialEaseFactor c" "initialEaseFactor c \<le> maxEaseFactor c"
    and "minEaseFactor c \<le> currentEaseFactor" "currentEaseFactor \<le> maxEaseFactor c"
  shows "minEaseFactor c
           \<le> newEaseFactor
               (calculateReview c now state currentInterval currentEaseFactor currentLearningStep rating daysLate)
       \<and> newEaseFactor
            (calculateReview c now state currentInterval currentEaseFactor currentLearningStep rating daysLate)
           \<le> maxEaseFactor c"
  using assms
  by (cases state; cases rating) (simp_all add: handler_defs Let_def)

theorem ease_factor_bounds_witness:
  "minEaseFactor DEFAULT_CONFIG \<le> initialEaseFactor DEFAULT_CONFIG
   \<and> initialEaseFactor DEFAULT_CONFIG \<le> maxEaseFactor DEFAULT_CONFIG
   \<and> minEaseFactor DEFAULT_CONFIG \<le> 24 / 10 \<and> 24 / 10 \<le> maxEaseFactor DEFAULT_CONFIG
   \<and> newEaseFactor (calculateReview DEFAULT_CONFIG 0 REVIEW 10 (24 / 10) 0 Easy 0) = 25 / 10
   \<and> minEaseFactor DEFAULT_CONFIG
        \<le> newEaseFactor (calculateReview DEFAULT_CONFIG 0 REVIEW 10 (24 / 10) 0 Easy 0)
   \<and> newEaseFactor (calculateReview DEFAULT_CONFIG 0 REVIEW 10 (24 / 10) 0 Easy 0)
        \<le> maxEaseFactor DEFAULT_CONFIG"
  using ease_factor_bounds [of DEFAULT_CONFIG "24 / 10" 0 REVIEW 10 0 Easy 0]
  by (simp add: DEFAULT_CONFIG_def calculateReview_def handleReviewCard_def Let_def)






lemma newInterval_clock:
  "newInterval (calculateReview c now1 state currentInterval currentEaseFactor currentLearningStep rating daysLate)
   = newInterval (calculateReview c now2 state currentInterval currentEaseFactor currentLearningStep rating daysLate)"
  by (cases state; cases rating) (simp_all add: handler_defs Let_def)

text \<open>
  Claim C7. For every snapshot and lateness, each of the four intervals that
  \<open>getNextReviewOptions\<close> reports is the \<open>newInterval\<close> of \<open>calculateReview\<close> with
  that rating on the same snapshot, whatever the clock readings of the calls; no unit
  is converted.
\<close>

theorem options_agree_with_review:
  "again (getNextReviewOptions c clock state currentInterval currentEaseFactor currentLearningStep daysLate)
     = newInterval (calculateReview c now state currentInterval currentEaseFactor currentLearningStep Again daysLate)
   \<and> hard (getNextReviewOptions c clock state currentInterval currentEaseFactor currentLearningStep daysLate)
     = newInterval (calculateReview c now state currentInterval currentEaseFactor currentLearningStep Hard daysLate)
   \<and> good (getNextReviewOptions c clock state currentInterval currentEaseFactor currentLearningStep daysLate)
     = newInterval (calculateReview c now state currentInterval currentEaseFactor currentLearningStep Good daysLate)
   \<and> easy (getNextReviewOptions c clock state currentInterval currentEaseFactor currentLearningStep daysLate)
     = newInterval (calculateReview c now state currentInterval currentEaseFactor currentLearningStep Easy daysLate)"
  by (simp add: getNextReviewOptions_def Let_def daysToDays_def
        newInterval_clock [of c "clock 0" _ _ _ _ _ _ now]
        newInterval_clock [of c "clock (Suc 0)" _ _ _ _ _ _ now]
        newInterval_clock [of c "clock 2" _ _ _ _ _ _ now]
        newInterval_clock [of c "clock 3" _ _ _ _ _ _ now])

section \<open>Properties of the priority\<close>

lemma floor_days:
  "\<lfloor>(of_int a :: rat) / of_int (1000 * 60 * 60 * 24)\<rfloor> = a div 86400000"
  using floor_divide_of_int_eq [of a 86400000, where ?'a = rat] by simp

lemma calculatePriority_Some:
  "calculatePriority c now (Some due) ease lapses state
     = of_int (max 0 ((now - due) div 86400000)) * 10
       + (maxEaseFactor c - ease) * 5
       + of_int lapses * 2
       + (if state = LEARNING \<or> state = RELEARNING then 100 else 0)"
  unfolding calculatePriority_def Let_def floor_days by simp

lemma calculatePriority_None:
  "calculatePriority c now None ease lapses state = 0"
  by (simp add: calculatePriority_def)


text \<open>
  Claim C9. All else equal, the priority does not decrease when \<open>daysOverdue\<close> grows
  (in particular when the time elapsed since the due date grows), when the lapse count
  grows, or when \<open>maxEaseFactor - easeFactor\<close> grows.
\<close>

theorem priority_monotone:
  "(max 0 ((now1 - due1) div 86400000) \<le> max 0 ((now2 - due2) div 86400000) \<longrightarrow>
      calculatePriority c now1 (Some due1) ease lapses state
        \<le> calculatePriority c now2 (Some due2) ease lapses state)
   \<and> (now1 - due1 \<le> now2 - due2 \<longrightarrow>
      calculatePriority c now1 (Some due1) ease lapses state
        \<le> calculatePriority c now2 (Some due2) ease lapses state)
   \<and> (lapse1 \<le> lapse2 \<longrightarrow>
      calculatePriority c now due ease lapse1 state
        \<le> calculatePriority c now due ease lapse2 state)
   \<and> (maxEaseFactor c1 - ease1 \<le> maxEaseFactor c2 - ease2 \<longrightarrow>
      calculatePriority c1 now due ease1 lapses state
        \<le> calculatePriority c2 now due ease2 lapses state)"
proof (intro conjI impI)
  assume "max 0 ((now1 - due1) div 86400000) \<le> max 0 ((now2 - due2) div 86400000)"
  then have "(of_int (max 0 ((now1 - due1) div 86400000)) :: rat)
               \<le> of_int (max 0 ((now2 - due2) div 86400000))"
    by (simp only: of_int_le_iff)
  then show "calculatePriority c now1 (Some due1) ease lapses state
        \<le> calculatePriority c now2 (Some due2) ease lapses state"
    by (simp add: calculatePriority_Some)
next
  assume "now1 - due1 \<le> now2 - due2"
  then have "(now1 - due1) div 86400000 \<le> (now2 - due2) div 86400000"
    by (rule zdiv_mono1) simp
  then have "(of_int (max 0 ((now1 - due1) div 86400000)) :: rat)
               \<le> of_int (max 0 ((now2 - due2) div 86400000))"
    by (simp only: of_int_le_iff)
  then show "calculatePriority c now1 (Some due1) ease lapses state
        \<le> calculatePriority c now2 (Some due2) ease lapses state"
    by (simp add: calculatePriority_Some)
next
  assume "lapse1 \<le> lapse2"
  then show "calculatePriority c now due ease lapse1 state
        \<le> calculatePriority c now due ease lapse2 state"
    by (cases due) (simp_all add: calculatePriority_Some calculatePriority_None)
next
  assume "maxEaseFactor c1 - ease1 \<le> maxEaseFactor c2 - ease2"
  then show "calculatePriority c1 now due ease1 lapses state
        \<le> calculatePriority c2 now due ease2 lapses state"
    by (cases due) (simp_all add: calculatePriority_Some calculatePriority_None)
qed

theorem priority_monotone_witness:
  "max 0 ((86400000 - 0) div 86400000) \<le> max 0 ((259200000 - (0::int)) div 86400000)
   \<and> (86400000 - 0 \<le> 259200000 - (0::int))
   \<and> calculatePriority DEFAULT_CONFIG 86400000 (Some 0) 2 1 REVIEW = 29 / 2
   \<and> calculatePriority DEFAULT_CONFIG 259200000 (Some 0) 2 1 REVIEW = 69 / 2
   \<and> (1::int) \<le> 4
   \<and> calculatePriority DEFAULT_CONFIG 86400000 (Some 0) 2 4 REVIEW = 41 / 2
   \<and> maxEaseFactor DEFAULT_CONFIG - 2 \<le> maxEaseFactor DEFAULT_CONFIG - 13 / 10
   \<and> calculatePriority DEFAULT_CONFIG 86400000 (Some 0) (13 / 10) 1 REVIEW = 18
   \<and> calculatePriority DEFAULT_CONFIG 86400000 (Some 0) 2 1 REVIEW
        \<le> calculatePriority DEFAULT_CONFIG 259200000 (Some 0) 2 1 REVIEW
   \<and> calculatePriority DEFAULT_CONFIG 86400000 (Some 0) 2 1 REVIEW
        \<le> calculatePriority DEFAULT_CONFIG 86400000 (Some 0) 2 4 REVIEW
   \<and> calculatePriority DEFAULT_CONFIG 86400000 (Some 0) 2 1 REVIEW
        \<le> calculatePriority DEFAULT_CONFIG 86400000 (Some 0) (13 / 10) 1 REVIEW"
  using priority_monotone [of 86400000 0 259200000 0 DEFAULT_CONFIG 2 1 REVIEW 1 4
      86400000 "Some 0" DEFAULT_CONFIG 2 DEFAULT_CONFIG "13 / 10"]
  by (simp add: calculatePriority_def DEFAULT_CONFIG_def Let_def)

section \<open>Properties of the due-card selection\<close>

lemma processCards_origin:
  "entry \<in> set (processCards db clock uid iN iL iR k cards) \<Longrightarrow>
     \<exists>theoryCard\<in>set cards. \<exists>t.
        processCard (clock 0) t iN iL iR theoryCard (progressEntries db uid theoryCard)
          = Some entry"
  by (induction cards arbitrary: k) (auto split: option.splits)

lemma processCard_card:
  "processCard now t iN iL iR theoryCard entries = Some entry \<Longrightarrow> dc_card entry = theoryCard"
  by (auto simp: processCard_def split: list.splits if_splits)

lemma processCard_review:
  assumes "cardState progress = REVIEW" "dueDate progress = Some due"
  shows "processCard now t iN iL iR theoryCard (progress # others) = None
           \<longleftrightarrow> \<not> iR \<or> now < due"
  unfolding processCard_def floor_days using assms
  by (simp add: stateFilter_def pos_imp_zdiv_neg_iff)

text \<open>
  Claim C4, as stated: a \<^verbatim>\<open>REVIEW\<close> candidate with a due date is left out of the queue
  whenever less than one full day has passed since the due date, so a card overdue by a
  part of a day is not included. It fails: twelve hours after its due date the example
  card is in the queue, marked overdue.
\<close>

theorem review_gate_counterexample:
  "getDueCards exampleDb (\<lambda>k. 43200000) 1 10 True True True =
     [\<lparr> dc_card = \<lparr>cardKey = ''c1'', columns = ()\<rparr>, dc_dueDate = Some 0,
         dc_cardState = REVIEW, dc_interval = 10, dc_easeFactor = 25 / 10,
         dc_reviewCount = 3, dc_lapseCount = 0, isOverdue = True,
         daysSinceLastReview = None, priority = 0 \<rparr>]"
  by (simp add: exampleDb_def exampleProgress_def getDueCards_def progressEntries_def processCard_def
        stateFilter_def calculatePriority_def DEFAULT_CONFIG_def Let_def)

text \<open>
  Claim C4, amended: a candidate whose progress row has state \<^verbatim>\<open>REVIEW\<close> and a due
  date is skipped by the loop exactly when \<^verbatim>\<open>REVIEW\<close> cards are not requested or the
  current time is before the due date; before its due date it is not in the queue, and
  from the due date on (also when overdue by a part of a day) the loop pushes it.
\<close>

theorem review_gate:
  assumes "progressRows db (uid, cardKey theoryCard) = Some progress"
    and "cardState progress = REVIEW" "dueDate progress = Some due"
  shows "(processCard now t includeNew includeLearning includeReview theoryCard
            (progressEntries db uid theoryCard) = None
          \<longleftrightarrow> \<not> includeReview \<or> now < due)
       \<and> (clock 0 < due \<longrightarrow>
            theoryCard \<notin> dc_card `
              set (getDueCards db clock uid limit includeNew includeLearning includeReview))"
proof (intro conjI impI)
  have entries: "progressEntries db uid theoryCard = [progress]"
    using assms(1) by (simp add: progressEntries_def)
  show "processCard now t includeNew includeLearning includeReview theoryCard
            (progressEntries db uid theoryCard) = None
          \<longleftrightarrow> \<not> includeReview \<or> now < due"
    unfolding entries using assms(2,3) by (rule processCard_review)
  assume early: "clock 0 < due"
  show "theoryCard \<notin> dc_card `
          set (getDueCards db clock uid limit includeNew includeLearning includeReview)"
  proof
    assume "theoryCard \<in> dc_card `
          set (getDueCards db clock uid limit includeNew includeLearning includeReview)"
    then obtain entry where
      queued: "entry \<in> set (getDueCards db clock uid limit includeNew includeLearning
                              includeReview)"
      and card: "dc_card entry = theoryCard"
      by auto
    from queued have "entry \<in> set (processCards db clock uid includeNew includeLearning
        includeReview 0 (take (limit * 2) (theoryCards db)))"
      unfolding getDueCards_def Let_def by (auto dest: in_set_takeD)
    then obtain other t' where
      some: "processCard (clock 0) t' includeNew includeLearning includeReview other
               (progressEntries db uid other) = Some entry"
      by (auto dest: processCards_origin)
    then have "other = theoryCard"
      using card by (auto dest: processCard_card)
    with some entries have "processCard (clock 0) t' includeNew includeLearning includeReview
        theoryCard [progress] = Some entry"
      by simp
    moreover have "processCard (clock 0) t' includeNew includeLearning includeReview
        theoryCard [progress] = None"
      using early by (simp add: processCard_review [OF assms(2,3)])
    ultimately show False by simp
  qed
qed

theorem review_gate_witness:
  "progressRows exampleDb (1, cardKey \<lparr>cardKey = ''c1'', columns = ()\<rparr>) = Some exampleProgress
   \<and> cardState exampleProgress = REVIEW \<and> dueDate exampleProgress = Some 0
   \<and> processCard 43200000 43200000 True True True \<lparr>cardKey = ''c1'', columns = ()\<rparr>
        (progressEntries exampleDb 1 \<lparr>cardKey = ''c1'', columns = ()\<rparr>) \<noteq> None
   \<and> (-1 :: int) < 0
   \<and> getDueCards exampleDb (\<lambda>k. -1) 1 10 True True True = []
   \<and> \<lparr>cardKey = ''c1'', columns = ()\<rparr> \<notin> dc_card `
        set (getDueCards exampleDb (\<lambda>k. -1) 1 10 True True True)"
  using review_gate [of exampleDb 1 "\<lparr>cardKey = ''c1'', columns = ()\<rparr>" exampleProgress 0
      43200000 43200000 True True True "\<lambda>k. -1" 10]
  by (simp add: exampleDb_def exampleProgress_def getDueCards_def progressEntries_def
        processCard_def stateFilter_def Let_def)

section \<open>Properties of the review and the reset\<close>

lemma addMinutes_Some: "addMinutes now m = Some d \<Longrightarrow> m \<noteq> None"
  by (cases m) (simp_all add: addMinutes_def)

lemma due_date_gives_interval:
  "newDueDate
     (calculateReview c now state currentInterval currentEaseFactor currentLearningStep
        rating daysLate) = Some due
   \<Longrightarrow> newInterval
         (calculateReview c now state currentInterval currentEaseFactor currentLearningStep
            rating daysLate) \<noteq> None"
  by (cases state; cases rating)
     (auto simp: handler_defs Let_def dest: addMinutes_Some split: if_splits)

lemma createProgress_Inr:
  "createProgress db gen uid cid = Inr (progress, db1) \<Longrightarrow>
     progress = initialProgress gen uid cid
     \<and> db1 = db\<lparr>progressRows := (progressRows db)((uid, cid) \<mapsto> initialProgress gen uid cid)\<rparr>"
  by (auto simp: createProgress_def split: if_splits)

lemma reviewCard_Inr:
  assumes "reviewCard db gen clock uid cid rating = (Inr response, db')"
  shows "\<exists>progress db1 updated.
           (case progressRows db (uid, cid) of
              Some found \<Rightarrow> Inr (found, db)
            | None \<Rightarrow> createProgress db gen uid cid) = Inr (progress, db1)
           \<and> db' = db1\<lparr>progressRows := (progressRows db1)((uid, cid) \<mapsto> updated)\<rparr>
           \<and> solvedCount updated = solvedCount progress + 1
           \<and> rowId updated = rowId progress \<and> userId updated = userId progress
           \<and> cardId updated = cardId progress \<and> createdAt updated = createdAt progress"
  using assms unfolding reviewCard_def Let_def
  by (auto split: sum.splits option.splits prod.splits)

text \<open>
  Claim C10. A \<open>reviewCard\<close> that succeeds leaves a progress row for the pair whose
  \<open>solvedCount\<close> is one more than before (1 for a row that the call created); of the
  row's columns only \<open>easeFactor\<close>, \<open>interval\<close>, \<open>dueDate\<close>, \<open>reviewCount\<close>,
  \<open>lapseCount\<close>, \<open>cardState\<close>, \<open>learningStep\<close>, \<open>lastReviewDate\<close>,
  \<open>solvedCount\<close> and \<open>updatedAt\<close> are written, so the key, \<open>userId\<close>,
  \<open>cardId\<close> and \<open>createdAt\<close> keep their values; no other row and no other table
  changes. A \<open>resetCard\<close> that succeeds leaves the row with \<open>solvedCount\<close> 0.
\<close>

theorem review_frame:
  "(reviewCard db gen clock uid cid rating = (Inr response, db') \<longrightarrow>
      (\<exists>updated. progressRows db' (uid, cid) = Some updated
         \<and> (case progressRows db (uid, cid) of
               Some progress \<Rightarrow>
                 solvedCount updated = solvedCount progress + 1
                 \<and> rowId updated = rowId progress \<and> userId updated = userId progress
                 \<and> cardId updated = cardId progress \<and> createdAt updated = createdAt progress
             | None \<Rightarrow>
                 solvedCount updated = 1
                 \<and> rowId updated = genId gen \<and> userId updated = uid
                 \<and> cardId updated = cid \<and> createdAt updated = genCreatedAt gen))
      \<and> (\<forall>key. key \<noteq> (uid, cid) \<longrightarrow> progressRows db' key = progressRows db key)
      \<and> users db' = users db \<and> theoryCards db' = theoryCards db)
   \<and> (resetCard db gen now uid cid = Inr db'' \<longrightarrow>
      (\<exists>row. progressRows db'' (uid, cid) = Some row \<and> solvedCount row = 0))"
  (is "(?reviewed \<longrightarrow> ?frame) \<and> (?reset \<longrightarrow> ?zero)")
proof (rule conjI; rule impI)
  assume ?reviewed
  then obtain progress db1 updated where
    found: "(case progressRows db (uid, cid) of
        Some found \<Rightarrow> Inr (found, db)
      | None \<Rightarrow> createProgress db gen uid cid) = Inr (progress, db1)"
    and db': "db' = db1\<lparr>progressRows := (progressRows db1)((uid, cid) \<mapsto> updated)\<rparr>"
    and fields: "solvedCount updated = solvedCount progress + 1"
      "rowId updated = rowId progress" "userId updated = userId progress"
      "cardId updated = cardId progress" "createdAt updated = createdAt progress"
    using reviewCard_Inr by blast
  show ?frame
  proof (cases "progressRows db (uid, cid)")
    case None
    with found have "progress = initialProgress gen uid cid"
      and "db1 = db\<lparr>progressRows :=
                      (progressRows db)((uid, cid) \<mapsto> initialProgress gen uid cid)\<rparr>"
      by (auto dest: createProgress_Inr)
    with None db' fields show ?thesis by (simp add: initialProgress_def)
  next
    case (Some row)
    with found have "progress = row" "db1 = db" by simp_all
    with Some db' fields show ?thesis by simp
  qed
next
  assume ?reset
  then show ?zero
    by (auto simp: resetCard_def initialProgress_def split: option.splits sum.splits
          dest!: createProgress_Inr)
qed

theorem review_frame_witness:
  "map_option solvedCount (progressRows exampleDb (1, ''c1'')) = Some 3
   \<and> (\<exists>response. fst (reviewCard exampleDb exampleGen (\<lambda>k. 43200000) 1 ''c1'' Good)
                    = Inr response)
   \<and> map_option solvedCount
        (progressRows (snd (reviewCard exampleDb exampleGen (\<lambda>k. 43200000) 1 ''c1'' Good))
           (1, ''c1'')) = Some 4
   \<and> (1 :: int, ''c2'') \<noteq> (1, ''c1'')
   \<and> progressRows (snd (reviewCard exampleDb exampleGen (\<lambda>k. 43200000) 1 ''c1'' Good))
        (1, ''c2'') = progressRows exampleDb (1, ''c2'')
   \<and> (\<exists>db''. resetCard exampleDb exampleGen 7 1 ''c1'' = Inr db''
        \<and> map_option solvedCount (progressRows db'' (1, ''c1'')) = Some 0)"
  using review_frame [of exampleDb exampleGen "\<lambda>k. 43200000" 1 "''c1''" Good
      "projr (fst (reviewCard exampleDb exampleGen (\<lambda>k. 43200000) 1 ''c1'' Good))"
      "snd (reviewCard exampleDb exampleGen (\<lambda>k. 43200000) 1 ''c1'' Good)"
      7 "projr (resetCard exampleDb exampleGen 7 1 ''c1'')"]
  by (simp add: exampleDb_def exampleProgress_def exampleGen_def reviewCard_def resetCard_def
        daysLateOf_def calculateReview_def handleReviewCard_def DEFAULT_CONFIG_def addDays_def
        Let_def)

end
